theory Spec2Isabelle
  imports Main "HOL-Library.Word"
begin

section \<open>Go values used by the three source files\<close>

text \<open>
  Fixed-width integers are words: \<open>int32\<close> and \<open>uint32\<close> have 32 bits, Go's \<open>int\<close> has
  64 bits on the 64-bit targets the node is built for, and \<open>time.Duration\<close> is an \<open>int64\<close>
  count of nanoseconds. Signed comparisons read the words with \<open>sint\<close>; \<open>+\<close> and \<open>-\<close> wrap
  as Go's do, and the conversion \<open>int32(x)\<close> of an \<open>int\<close> keeps the low 32 bits (\<open>scast\<close>).

  A pointer to a struct that a function receives (a method receiver, the element of a
  slice, a configuration) is modelled by the struct it points to. Pointers and slices that
  the code itself tests, produces as \<open>nil\<close> or dereferences after a call that may have
  failed carry an \<open>option\<close>: \<open>None\<close> is \<open>nil\<close>. A Go result \<open>(v, err)\<close> is a pair of
  options.
\<close>

type_synonym int32 = "32 word"
type_synonym uint32 = "32 word"
type_synonym go_int = "64 word"
type_synonym Duration = "64 word"

text \<open>The only run-time panic these functions can raise.\<close>

datatype panic = NilPointerDereference

text \<open>
  Go's \<open>error\<close>: either built here by \<open>fmt.Errorf\<close> (the formatted message), or handed
  back by a collaborator outside the three files (\<open>'e\<close>).
\<close>

datatype 'e error = Errorf string | Foreign 'e

text \<open>
  A slice is \<open>None\<close> when it is \<open>nil\<close>. \<open>append(s, x)\<close> on a nil slice allocates, so its
  result is never nil.
\<close>

fun append_slice :: "'a list option \<Rightarrow> 'a \<Rightarrow> 'a list option" where
  "append_slice None x = Some [x]"
| "append_slice (Some xs) x = Some (xs @ [x])"

subsection \<open>\<open>time\<close>: the duration constants\<close>

definition time_Nanosecond :: Duration where
  "time_Nanosecond = 1"

definition time_Microsecond :: Duration where
  "time_Microsecond = 1000 * time_Nanosecond"

definition time_Millisecond :: Duration where
  "time_Millisecond = 1000 * time_Microsecond"

definition time_Second :: Duration where
  "time_Second = 1000 * time_Millisecond"

definition time_Minute :: Duration where
  "time_Minute = 60 * time_Second"

definition time_Hour :: Duration where
  "time_Hour = 60 * time_Minute"

subsection \<open>\<open>math/big\<close>: decimal text of a \<open>*big.Int\<close>\<close>

text \<open>
  A \<open>*big.Int\<close> is an \<open>int option\<close>. \<open>(*Int).String()\<close> prints \<open><nil>\<close> for the nil pointer
  and otherwise the base-10 digits, most significant first, after a \<open>-\<close> when the value is
  negative. \<open>SetString(s, 10)\<close> accepts one optional sign (\<open>+\<close> or \<open>-\<close>) followed by one or
  more decimal digits and nothing else; it reports failure (\<open>ok = false\<close>, here \<open>None\<close>) on
  every other string, the empty one included.
\<close>

definition digit_char :: "nat \<Rightarrow> char" where
  "digit_char d = char_of (48 + d)"

fun decimal :: "nat \<Rightarrow> string" where
  "decimal n = (if n < 10 then [digit_char n] else decimal (n div 10) @ [digit_char (n mod 10)])"

declare decimal.simps [simp del]

definition Int_String :: "int option \<Rightarrow> string" where
  "Int_String x =
     (case x of
        None \<Rightarrow> ''<nil>''
      | Some k \<Rightarrow> if k < 0 then CHR ''-'' # decimal (nat (- k)) else decimal (nat k))"

definition is_digit :: "char \<Rightarrow> bool" where
  "is_digit c \<longleftrightarrow> (48::nat) \<le> of_char c \<and> of_char c \<le> (57::nat)"

definition digit_val :: "char \<Rightarrow> nat" where
  "digit_val c = of_char c - 48"

fun scan_digits :: "nat \<Rightarrow> string \<Rightarrow> nat" where
  "scan_digits acc [] = acc"
| "scan_digits acc (c # cs) = scan_digits (acc * 10 + digit_val c) cs"

definition SetString10 :: "string \<Rightarrow> int option" where
  "SetString10 s =
     (case s of
        [] \<Rightarrow> None
      | c # cs \<Rightarrow>
          (let neg = (c = CHR ''-'');
               ds = (if c = CHR ''-'' \<or> c = CHR ''+'' then cs else s)
           in if ds \<noteq> [] \<and> list_all is_digit ds
              then Some (if neg then - int (scan_digits 0 ds) else int (scan_digits 0 ds))
              else None))"

definition NewInt :: "int \<Rightarrow> int option" where
  "NewInt x = Some x"

section \<open>Package \<open>config\<close>: the defaults\<close>

text \<open>
  The configuration structs are declared outside the three files; their fields are read
  off the composite literals. A numeric field whose declared type is not visible holds the
  value of the untyped constant assigned to it. \<open>BanDuration\<close> and \<open>TrickleInterval\<close> are
  assigned typed \<open>time.Duration\<close> constants.
\<close>

type_synonym DbType = string

definition DBSqlite :: DbType where
  "DBSqlite = ''sqlite''"

record DbConfig =
  Type :: DbType
  FilePath :: string
  Dsn :: string
  SchemaPath :: string
  PreparedDb :: bool
  PreparedDbFilePath :: string

record HTTPConfig =
  ReadTimeout :: int
  WriteTimeout :: int
  Port :: int
  UrlPrefix :: string
  UseAuth :: bool
  AuthToken :: string

record MerkleRootConfig =
  MaxBlockHeightExcess :: int

record WebsocketConfig =
  HistoryMax :: int
  HistoryTTL :: int

record WebhookConfig =
  MaxTries :: int

record p2pconfig_Config =
  LogLevel :: string
  LogDir :: string
  MaxPeers :: int
  MaxPeersPerIP :: int
  BanDuration :: Duration
  MinSyncPeerNetworkSpeed :: int
  ExcessiveBlockSize :: int
  TrickleInterval :: Duration
  BlocksForForkConfirmation :: int

record AppConfig =
  cfg_DbConfig :: DbConfig
  cfg_HTTPConfig :: HTTPConfig
  cfg_MerkleRootConfig :: MerkleRootConfig
  cfg_WebsocketConfig :: WebsocketConfig
  cfg_WebhookConfig :: WebhookConfig
  cfg_P2PConfig :: p2pconfig_Config

definition getDbDefaults :: DbConfig where
  "getDbDefaults =
     \<lparr>Type = DBSqlite,
      FilePath = ''./data/blockheaders.db'',
      Dsn = ''file:./data/blockheaders.db?_foreign_keys=true&pooling=true'',
      SchemaPath = ''./database/migrations'',
      PreparedDb = False,
      PreparedDbFilePath = ''./data/blockheaders.csv.gz''\<rparr>"

definition getAuthConfigDefaults :: HTTPConfig where
  "getAuthConfigDefaults =
     \<lparr>ReadTimeout = 10,
      WriteTimeout = 10,
      Port = 8080,
      UrlPrefix = ''/api/v1'',
      UseAuth = True,
      AuthToken = ''mQZQ6WmxURxWz5ch''\<rparr>"

definition getMerkleRootDefaults :: MerkleRootConfig where
  "getMerkleRootDefaults = \<lparr>MaxBlockHeightExcess = 6\<rparr>"

definition getWebsocketDefaults :: WebsocketConfig where
  "getWebsocketDefaults = \<lparr>HistoryMax = 300, HistoryTTL = 10\<rparr>"

definition getWebhookDefaults :: WebhookConfig where
  "getWebhookDefaults = \<lparr>MaxTries = 10\<rparr>"

definition getP2PDefaults :: p2pconfig_Config where
  "getP2PDefaults =
     \<lparr>LogLevel = ''info'',
      LogDir = ''./logs'',
      MaxPeers = 125,
      MaxPeersPerIP = 5,
      BanDuration = time_Hour * 24,
      MinSyncPeerNetworkSpeed = 51200,
      ExcessiveBlockSize = 128000000,
      TrickleInterval = 50 * time_Millisecond,
      BlocksForForkConfirmation = 10\<rparr>"

definition GetDefaultAppConfig :: AppConfig where
  "GetDefaultAppConfig =
     \<lparr>cfg_DbConfig = getDbDefaults,
      cfg_HTTPConfig = getAuthConfigDefaults,
      cfg_MerkleRootConfig = getMerkleRootDefaults,
      cfg_WebsocketConfig = getWebsocketDefaults,
      cfg_WebhookConfig = getWebhookDefaults,
      cfg_P2PConfig = getP2PDefaults\<rparr>"

section \<open>Package \<open>database\<close>: start-up\<close>

text \<open>
  \<open>SQLiteAdapter\<close> is the one implementation of the \<open>DBAdapter\<close> interface. Its two methods
  and \<open>ImportHeaders\<close> live outside the three files and act on the outside world (the
  database file, the CSV file): they are parameters, each a function from the world before
  the call to its Go result and the world after it. A run carries the world and the list of
  the outside calls made so far, oldest first, so that which collaborator was called can be
  read off the final state.
\<close>

datatype DBAdapter = SQLiteAdapter

datatype call = AdapterConnect | AdapterDoMigrations | ImportHeadersCall

record 'w run =
  world :: 'w
  trace :: "call list"

definition extern :: "call \<Rightarrow> ('w \<Rightarrow> 'r \<times> 'w) \<Rightarrow> 'w run \<Rightarrow> 'r \<times> 'w run" where
  "extern c f s = (case f (world s) of (r, w') \<Rightarrow> (r, \<lparr>world = w', trace = trace s @ [c]\<rparr>))"

text \<open>
  \<open>NewDBAdapter\<close> has two return statements, \<open>(adapter, nil)\<close> and \<open>(nil, err)\<close>: \<open>Inr\<close> is
  the first, \<open>Inl\<close> the second.
\<close>

definition NewDBAdapter :: "DbConfig \<Rightarrow> 'e error + DBAdapter" where
  "NewDBAdapter cfg =
     (if Type cfg = DBSqlite then Inr SQLiteAdapter
      else Inl (Errorf (''unsupported database type '' @ Type cfg)))"

definition Connect ::
  "(DBAdapter \<Rightarrow> DbConfig \<Rightarrow> 'w \<Rightarrow> ('db option \<times> 'e error option) \<times> 'w) \<Rightarrow>
   DbConfig \<Rightarrow> 'w run \<Rightarrow> ('db option \<times> 'e error option) \<times> 'w run" where
  "Connect adapterConnect cfg s =
     (case NewDBAdapter cfg of
        Inl err \<Rightarrow> ((None, Some err), s)
      | Inr adapter \<Rightarrow> extern AdapterConnect (adapterConnect adapter cfg) s)"

definition DoMigrations ::
  "(DBAdapter \<Rightarrow> 'db option \<Rightarrow> DbConfig \<Rightarrow> 'w \<Rightarrow> 'e error option \<times> 'w) \<Rightarrow>
   'db option \<Rightarrow> DbConfig \<Rightarrow> 'w run \<Rightarrow> 'e error option \<times> 'w run" where
  "DoMigrations adapterDoMigrations db cfg s =
     (case NewDBAdapter cfg of
        Inl err \<Rightarrow> (Some err, s)
      | Inr adapter \<Rightarrow> extern AdapterDoMigrations (adapterDoMigrations adapter db cfg) s)"

definition Init ::
  "(DBAdapter \<Rightarrow> DbConfig \<Rightarrow> 'w \<Rightarrow> ('db option \<times> 'e error option) \<times> 'w) \<Rightarrow>
   (DBAdapter \<Rightarrow> 'db option \<Rightarrow> DbConfig \<Rightarrow> 'w \<Rightarrow> 'e error option \<times> 'w) \<Rightarrow>
   ('db option \<Rightarrow> AppConfig \<Rightarrow> 'l \<Rightarrow> 'w \<Rightarrow> 'e error option \<times> 'w) \<Rightarrow>
   AppConfig \<Rightarrow> 'l \<Rightarrow> 'w run \<Rightarrow> ('db option \<times> 'e error option) \<times> 'w run" where
  "Init adapterConnect adapterDoMigrations ImportHeaders cfg log s =
     (case Connect adapterConnect (cfg_DbConfig cfg) s of
        ((db, Some err), s1) \<Rightarrow> ((None, Some err), s1)
      | ((db, None), s1) \<Rightarrow>
          (case DoMigrations adapterDoMigrations db (cfg_DbConfig cfg) s1 of
             (Some err, s2) \<Rightarrow> ((None, Some err), s2)
           | (None, s2) \<Rightarrow>
               if PreparedDb (cfg_DbConfig cfg) then
                 (case extern ImportHeadersCall (ImportHeaders db cfg log) s2 of
                    (Some err, s3) \<Rightarrow> ((None, Some err), s3)
                  | (None, s3) \<Rightarrow> ((db, None), s3))
               else ((db, None), s2)))"

section \<open>Package \<open>dto\<close>: database records and their conversions\<close>

text \<open>
  \<open>chainhash.Hash\<close> (\<open>'h\<close>) and \<open>time.Time\<close> (\<open>'t\<close>) are only copied or handed to
  \<open>chainhash\<close>. The package \<open>chainhash\<close> and the \<open>String\<close> method of \<open>domains.HeaderState\<close>
  are outside the three files, so \<open>NewHashFromStr\<close>, \<open>Hash.String\<close> and \<open>HeaderState.String\<close>
  are parameters of the functions that call them. \<open>domains.HeaderState(s)\<close> is a plain
  conversion of a string, so a \<open>HeaderState\<close> is the string it was converted from.
\<close>

record 't DbBlockHeader =
  dbh_Height :: int32
  dbh_Hash :: string
  dbh_Version :: int32
  dbh_MerkleRoot :: string
  dbh_Timestamp :: 't
  dbh_Bits :: uint32
  dbh_Nonce :: uint32
  dbh_State :: string
  dbh_Chainwork :: string
  dbh_CumulatedWork :: string
  dbh_PreviousBlock :: string

record ('h, 't) BlockHeader =
  bh_Height :: int32
  bh_Hash :: 'h
  bh_Version :: int32
  bh_MerkleRoot :: 'h
  bh_Timestamp :: 't
  bh_Bits :: uint32
  bh_Nonce :: uint32
  bh_Chainwork :: "int option"
  bh_CumulatedWork :: "int option"
  bh_State :: string
  bh_PreviousBlock :: 'h

text \<open>
  \<open>ToBlockHeader\<close> has a pointer receiver and overwrites an empty \<open>CumulatedWork\<close> with
  \<open>"0"\<close> in the record it was called on: the second component of the result is that record
  after the call. The first component is the header, or the panic raised when one of the
  three hash pointers is dereferenced while nil. The second result of \<open>NewHashFromStr\<close> is
  assigned to the blank identifier.
\<close>

definition ToBlockHeader ::
  "(string \<Rightarrow> 'h option \<times> 'e option) \<Rightarrow> 't DbBlockHeader \<Rightarrow>
   (panic + ('h, 't) BlockHeader) \<times> 't DbBlockHeader" where
  "ToBlockHeader NewHashFromStr dbh0 =
     (let dbh = (if dbh_CumulatedWork dbh0 = '''' then dbh0\<lparr>dbh_CumulatedWork := ''0''\<rparr> else dbh0);
          cumulatedWork = (case SetString10 (dbh_CumulatedWork dbh) of
                             None \<Rightarrow> NewInt 0 | Some z \<Rightarrow> Some z);
          chainWork = (case SetString10 (dbh_Chainwork dbh) of
                         None \<Rightarrow> NewInt 0 | Some z \<Rightarrow> Some z);
          hash = fst (NewHashFromStr (dbh_Hash dbh));
          merkleTree = fst (NewHashFromStr (dbh_MerkleRoot dbh));
          prevBlock = fst (NewHashFromStr (dbh_PreviousBlock dbh))
      in ((case hash of
             None \<Rightarrow> Inl NilPointerDereference
           | Some h \<Rightarrow>
               (case merkleTree of
                  None \<Rightarrow> Inl NilPointerDereference
                | Some m \<Rightarrow>
                    (case prevBlock of
                       None \<Rightarrow> Inl NilPointerDereference
                     | Some p \<Rightarrow>
                         Inr \<lparr>bh_Height = dbh_Height dbh,
                              bh_Hash = h,
                              bh_Version = dbh_Version dbh,
                              bh_MerkleRoot = m,
                              bh_Timestamp = dbh_Timestamp dbh,
                              bh_Bits = dbh_Bits dbh,
                              bh_Nonce = dbh_Nonce dbh,
                              bh_Chainwork = chainWork,
                              bh_CumulatedWork = cumulatedWork,
                              bh_State = dbh_State dbh,
                              bh_PreviousBlock = p\<rparr>))),
          dbh))"

text \<open>
  The loop of \<open>ConvertToBlockHeader\<close>: \<open>blockHeaders\<close> starts as the nil slice and grows by
  \<open>append\<close>; a panic stops the loop. The records converted so far are returned as the calls
  left them.
\<close>

fun ConvertToBlockHeader_range ::
  "(string \<Rightarrow> 'h option \<times> 'e option) \<Rightarrow> 't DbBlockHeader list \<Rightarrow>
   ('h, 't) BlockHeader list option \<Rightarrow>
   (panic + ('h, 't) BlockHeader list option) \<times> 't DbBlockHeader list" where
  "ConvertToBlockHeader_range NewHashFromStr [] blockHeaders = (Inr blockHeaders, [])"
| "ConvertToBlockHeader_range NewHashFromStr (header # rest) blockHeaders =
     (case ToBlockHeader NewHashFromStr header of
        (Inl p, header') \<Rightarrow> (Inl p, header' # rest)
      | (Inr h, header') \<Rightarrow>
          (case ConvertToBlockHeader_range NewHashFromStr rest (append_slice blockHeaders h) of
             (r, rest') \<Rightarrow> (r, header' # rest')))"

definition ConvertToBlockHeader ::
  "(string \<Rightarrow> 'h option \<times> 'e option) \<Rightarrow> 't DbBlockHeader list option \<Rightarrow>
   (panic + ('h, 't) BlockHeader list option) \<times> 't DbBlockHeader list option" where
  "ConvertToBlockHeader NewHashFromStr dbBlockHeaders =
     (case dbBlockHeaders of
        Some headers \<Rightarrow>
          (case ConvertToBlockHeader_range NewHashFromStr headers None of
             (r, headers') \<Rightarrow> (r, Some headers'))
      | None \<Rightarrow> (Inr None, None))"

definition ToDbBlockHeader ::
  "('h \<Rightarrow> string) \<Rightarrow> (string \<Rightarrow> string) \<Rightarrow> ('h, 't) BlockHeader \<Rightarrow> 't DbBlockHeader" where
  "ToDbBlockHeader Hash_String HeaderState_String bh =
     \<lparr>dbh_Height = bh_Height bh,
      dbh_Hash = Hash_String (bh_Hash bh),
      dbh_Version = bh_Version bh,
      dbh_MerkleRoot = Hash_String (bh_MerkleRoot bh),
      dbh_Timestamp = bh_Timestamp bh,
      dbh_Bits = bh_Bits bh,
      dbh_Nonce = bh_Nonce bh,
      dbh_State = HeaderState_String (bh_State bh),
      dbh_Chainwork = Int_String (bh_Chainwork bh),
      dbh_CumulatedWork = Int_String (bh_CumulatedWork bh),
      dbh_PreviousBlock = Hash_String (bh_PreviousBlock bh)\<rparr>"

text \<open>\<open>sql.NullString\<close>: \<open>Valid\<close> is false for SQL NULL, and then \<open>String\<close> is empty.\<close>

record NullString =
  ns_String :: string
  ns_Valid :: bool

record DbMerkleRootConfirmation =
  dbc_MerkleRoot :: string
  dbc_BlockHeight :: int32
  dbc_Hash :: NullString
  dbc_TipHeight :: int32

text \<open>
  Modelled from the spec: \<open>domains.MerkleRootConfirmationState\<close> and its three constants
  are declared outside the three files; the specification names the three outcomes of a
  Merkle-root confirmation \<open>Confirmed\<close>, \<open>UnableToVerify\<close> and \<open>Invalid\<close>.
\<close>

datatype MerkleRootConfirmationState = Confirmed | Invalid | UnableToVerify

record MerkleRootConfirmation =
  mrc_MerkleRoot :: string
  mrc_BlockHeight :: int32
  mrc_Hash :: string
  mrc_Confirmation :: MerkleRootConfirmationState

definition ToMerkleRootConfirmation ::
  "DbMerkleRootConfirmation \<Rightarrow> go_int \<Rightarrow> MerkleRootConfirmation" where
  "ToMerkleRootConfirmation dbMerkleConfm maxBlockHeightExcess =
     (let confmState =
        (if ns_Valid (dbc_Hash dbMerkleConfm) then Confirmed
         else if sint (dbc_TipHeight dbMerkleConfm) < sint (dbc_BlockHeight dbMerkleConfm) \<and>
                 sint (dbc_BlockHeight dbMerkleConfm - dbc_TipHeight dbMerkleConfm)
                   < sint (scast (maxBlockHeightExcess + 1) :: int32)
         then UnableToVerify
         else Invalid)
      in \<lparr>mrc_MerkleRoot = dbc_MerkleRoot dbMerkleConfm,
          mrc_BlockHeight = dbc_BlockHeight dbMerkleConfm,
          mrc_Hash = ns_String (dbc_Hash dbMerkleConfm),
          mrc_Confirmation = confmState\<rparr>)"

fun ConvertToMerkleRootsConfirmations_range ::
  "DbMerkleRootConfirmation list \<Rightarrow> go_int \<Rightarrow> MerkleRootConfirmation list option \<Rightarrow>
   MerkleRootConfirmation list option" where
  "ConvertToMerkleRootsConfirmations_range [] maxBlockHeightExcess merklesConfms = merklesConfms"
| "ConvertToMerkleRootsConfirmations_range (merkleConfm # rest) maxBlockHeightExcess merklesConfms =
     ConvertToMerkleRootsConfirmations_range rest maxBlockHeightExcess
       (append_slice merklesConfms (ToMerkleRootConfirmation merkleConfm maxBlockHeightExcess))"

definition ConvertToMerkleRootsConfirmations ::
  "DbMerkleRootConfirmation list option \<Rightarrow> go_int \<Rightarrow> MerkleRootConfirmation list option" where
  "ConvertToMerkleRootsConfirmations dbMerkleConfms maxBlockHeightExcess =
     ConvertToMerkleRootsConfirmations_range
       (case dbMerkleConfms of None \<Rightarrow> [] | Some confms \<Rightarrow> confms)
       maxBlockHeightExcess (Some [])"

text \<open>An integer fits \<open>int32\<close> when no wrap-around or truncation changes it.\<close>

definition fits_int32 :: "int \<Rightarrow> bool" where
  "fits_int32 k \<longleftrightarrow> - 2147483648 \<le> k \<and> k < 2147483648"

section \<open>Verification\<close>

subsection \<open>Merkle-root confirmation\<close>

lemma sint_sub_nowrap:
  fixes a b :: int32
  assumes "fits_int32 (sint a - sint b)"
  shows "sint (a - b) = sint a - sint b"
  using assms
  by (simp add: fits_int32_def sint_word_ariths signed_take_bit_int_eq_self)

lemma sint_int32_succ:
  fixes m :: go_int
  assumes "fits_int32 (sint m + 1)"
  shows "sint (scast (m + 1) :: int32) = sint m + 1"
proof -
  have "sint (m + 1) = sint m + 1"
    using assms by (simp add: fits_int32_def sint_word_ariths signed_take_bit_int_eq_self)
  then show ?thesis
    using assms by (simp add: fits_int32_def signed_scast_eq signed_take_bit_int_eq_self)
qed

lemma sub_eq_int32_succ:
  fixes a b :: int32 and m :: go_int
  assumes "sint a = sint b + sint m + 1"
  shows "a - b = scast (m + 1)"
proof -
  have "sint a < 2147483648" "- 2147483648 \<le> sint a"
    using sint_lt [of a] sint_ge [of a] by simp_all
  moreover have "sint b < 2147483648" "- 2147483648 \<le> sint b"
    using sint_lt [of b] sint_ge [of b] by simp_all
  ultimately have "- 4294967296 \<le> sint m + 1 \<and> sint m + 1 < 4294967296"
    using assms by linarith
  then have r: "- (2 ^ 63) \<le> sint m + 1 \<and> sint m + 1 < 2 ^ 63"
    by simp
  then have s: "sint (m + 1) = sint m + 1"
    by (simp add: sint_word_ariths signed_take_bit_int_eq_self)
  have d: "sint m + 1 = sint a - sint b"
    using assms by linarith
  have "(scast (m + 1) :: int32) = word_of_int (sint (m + 1))"
    by (simp only: scast_eq)
  also have "\<dots> = word_of_int (sint a - sint b)"
    by (simp only: s d)
  also have "\<dots> = word_of_int (sint a) - word_of_int (sint b)"
    by (simp only: of_int_diff)
  also have "\<dots> = a - b"
    by simp
  finally show ?thesis by (rule sym)
qed

text \<open>
  C1 (as amended). \<open>ToMerkleRootConfirmation\<close> returns \<open>Confirmed\<close> whenever the stored hash
  is present, for every record and every \<open>maxBlockHeightExcess\<close>. When it is absent, and
  \<open>BlockHeight - TipHeight\<close> and \<open>maxBlockHeightExcess + 1\<close> both fit \<open>int32\<close>, it returns
  \<open>UnableToVerify\<close> exactly when \<open>BlockHeight > TipHeight\<close> and
  \<open>BlockHeight - TipHeight \<le> maxBlockHeightExcess\<close>, and \<open>Invalid\<close> in every remaining case.
  For \<open>BlockHeight = TipHeight + maxBlockHeightExcess + 1\<close> with no stored hash the result is
  \<open>Invalid\<close>, with no condition on the ranges.
\<close>

theorem ToMerkleRootConfirmation_state:
  fixes r :: DbMerkleRootConfirmation and m :: go_int
  shows
  "(ns_Valid (dbc_Hash r) \<longrightarrow> mrc_Confirmation (ToMerkleRootConfirmation r m) = Confirmed) \<and>
   (\<not> ns_Valid (dbc_Hash r) \<and>
      fits_int32 (sint (dbc_BlockHeight r) - sint (dbc_TipHeight r)) \<and>
      fits_int32 (sint m + 1) \<longrightarrow>
      mrc_Confirmation (ToMerkleRootConfirmation r m) =
        (if sint (dbc_TipHeight r) < sint (dbc_BlockHeight r) \<and>
            sint (dbc_BlockHeight r) - sint (dbc_TipHeight r) \<le> sint m
         then UnableToVerify else Invalid)) \<and>
   (\<not> ns_Valid (dbc_Hash r) \<and>
      sint (dbc_BlockHeight r) = sint (dbc_TipHeight r) + sint m + 1 \<longrightarrow>
      mrc_Confirmation (ToMerkleRootConfirmation r m) = Invalid)"
proof (intro conjI impI)
  assume "ns_Valid (dbc_Hash r)"
  then show "mrc_Confirmation (ToMerkleRootConfirmation r m) = Confirmed"
    by (simp add: ToMerkleRootConfirmation_def)
next
  assume a: "\<not> ns_Valid (dbc_Hash r) \<and>
      fits_int32 (sint (dbc_BlockHeight r) - sint (dbc_TipHeight r)) \<and>
      fits_int32 (sint m + 1)"
  then have d: "sint (dbc_BlockHeight r - dbc_TipHeight r) =
      sint (dbc_BlockHeight r) - sint (dbc_TipHeight r)"
    by (simp add: sint_sub_nowrap)
  from a have e: "sint (scast (m + 1) :: int32) = sint m + 1"
    by (simp add: sint_int32_succ)
  have "(sint (dbc_BlockHeight r) - sint (dbc_TipHeight r) < sint m + 1) =
      (sint (dbc_BlockHeight r) - sint (dbc_TipHeight r) \<le> sint m)"
    by linarith
  with a show "mrc_Confirmation (ToMerkleRootConfirmation r m) =
        (if sint (dbc_TipHeight r) < sint (dbc_BlockHeight r) \<and>
            sint (dbc_BlockHeight r) - sint (dbc_TipHeight r) \<le> sint m
         then UnableToVerify else Invalid)"
    by (simp add: ToMerkleRootConfirmation_def d e)
next
  assume a: "\<not> ns_Valid (dbc_Hash r) \<and>
      sint (dbc_BlockHeight r) = sint (dbc_TipHeight r) + sint m + 1"
  then have "dbc_BlockHeight r - dbc_TipHeight r = scast (m + 1)"
    by (simp add: sub_eq_int32_succ)
  with a show "mrc_Confirmation (ToMerkleRootConfirmation r m) = Invalid"
    by (simp add: ToMerkleRootConfirmation_def)
qed

theorem ToMerkleRootConfirmation_state_witness:
  "ns_Valid (dbc_Hash \<lparr>dbc_MerkleRoot = ''aa'', dbc_BlockHeight = 100,
       dbc_Hash = \<lparr>ns_String = ''bb'', ns_Valid = True\<rparr>, dbc_TipHeight = 100\<rparr>) \<and>
   mrc_Confirmation (ToMerkleRootConfirmation
     \<lparr>dbc_MerkleRoot = ''aa'', dbc_BlockHeight = 100,
       dbc_Hash = \<lparr>ns_String = ''bb'', ns_Valid = True\<rparr>, dbc_TipHeight = 100\<rparr> 6) = Confirmed \<and>
   fits_int32 (sint (106 :: int32) - sint (100 :: int32)) \<and> fits_int32 (sint (6 :: go_int) + 1) \<and>
   mrc_Confirmation (ToMerkleRootConfirmation
     \<lparr>dbc_MerkleRoot = ''aa'', dbc_BlockHeight = 106,
       dbc_Hash = \<lparr>ns_String = '''', ns_Valid = False\<rparr>, dbc_TipHeight = 100\<rparr> 6) = UnableToVerify \<and>
   sint (107 :: int32) = sint (100 :: int32) + sint (6 :: go_int) + 1 \<and>
   mrc_Confirmation (ToMerkleRootConfirmation
     \<lparr>dbc_MerkleRoot = ''aa'', dbc_BlockHeight = 107,
       dbc_Hash = \<lparr>ns_String = '''', ns_Valid = False\<rparr>, dbc_TipHeight = 100\<rparr> 6) = Invalid"
  using ToMerkleRootConfirmation_state
      [of "\<lparr>dbc_MerkleRoot = ''aa'', dbc_BlockHeight = 100,
            dbc_Hash = \<lparr>ns_String = ''bb'', ns_Valid = True\<rparr>, dbc_TipHeight = 100\<rparr>" 6]
    ToMerkleRootConfirmation_state
      [of "\<lparr>dbc_MerkleRoot = ''aa'', dbc_BlockHeight = 106,
            dbc_Hash = \<lparr>ns_String = '''', ns_Valid = False\<rparr>, dbc_TipHeight = 100\<rparr>" 6]
    ToMerkleRootConfirmation_state
      [of "\<lparr>dbc_MerkleRoot = ''aa'', dbc_BlockHeight = 107,
            dbc_Hash = \<lparr>ns_String = '''', ns_Valid = False\<rparr>, dbc_TipHeight = 100\<rparr>" 6]
  by (simp add: fits_int32_def)

text \<open>
  Without the range conditions the middle part fails: with \<open>maxBlockHeightExcess = 2147483647\<close>
  the sum \<open>maxBlockHeightExcess + 1\<close> is \<open>2147483648\<close>, which \<open>int32(\<dots>)\<close> turns into
  \<open>-2147483648\<close>; a block one above the tip is then \<open>Invalid\<close> although
  \<open>1 \<le> 2147483647\<close>.
\<close>

theorem ToMerkleRootConfirmation_excess_counterexample:
  "\<not> ns_Valid (dbc_Hash \<lparr>dbc_MerkleRoot = ''aa'', dbc_BlockHeight = 1,
       dbc_Hash = \<lparr>ns_String = '''', ns_Valid = False\<rparr>, dbc_TipHeight = 0\<rparr>) \<and>
   sint (0 :: int32) < sint (1 :: int32) \<and>
   sint (1 :: int32) - sint (0 :: int32) \<le> sint (2147483647 :: go_int) \<and>
   mrc_Confirmation (ToMerkleRootConfirmation
     \<lparr>dbc_MerkleRoot = ''aa'', dbc_BlockHeight = 1,
       dbc_Hash = \<lparr>ns_String = '''', ns_Valid = False\<rparr>, dbc_TipHeight = 0\<rparr> 2147483647) = Invalid"
  by (simp add: ToMerkleRootConfirmation_def)

subsection \<open>The defaults\<close>

text \<open>
  C5. \<open>GetDefaultAppConfig\<close> sets \<open>BanDuration\<close> to 24 hours and \<open>TrickleInterval\<close> to 50
  milliseconds (both read in nanoseconds).
\<close>

theorem GetDefaultAppConfig_durations:
  "BanDuration (cfg_P2PConfig GetDefaultAppConfig) = 24 * time_Hour \<and>
   sint (BanDuration (cfg_P2PConfig GetDefaultAppConfig)) = 24 * 60 * 60 * 1000000000 \<and>
   TrickleInterval (cfg_P2PConfig GetDefaultAppConfig) = 50 * time_Millisecond \<and>
   sint (TrickleInterval (cfg_P2PConfig GetDefaultAppConfig)) = 50 * 1000000"
  by (simp add: GetDefaultAppConfig_def getP2PDefaults_def time_Hour_def time_Minute_def
      time_Second_def time_Millisecond_def time_Microsecond_def time_Nanosecond_def)

subsection \<open>Start-up\<close>

lemma trace_extern: "trace (snd (extern c f s)) = trace s @ [c]"
  by (simp add: extern_def split: prod.splits)

lemma fst_extern: "fst (extern c f s) = fst (f (world s))"
  by (simp add: extern_def split: prod.splits)

lemma world_extern: "world (snd (extern c f s)) = snd (f (world s))"
  by (simp add: extern_def split: prod.splits)

lemma count_ImportHeaders_Connect:
  "count_list (trace (snd (Connect adapterConnect cfg s))) ImportHeadersCall =
   count_list (trace s) ImportHeadersCall"
  by (simp add: Connect_def trace_extern split: sum.splits)

lemma count_ImportHeaders_DoMigrations:
  "count_list (trace (snd (DoMigrations adapterDoMigrations db cfg s))) ImportHeadersCall =
   count_list (trace s) ImportHeadersCall"
  by (simp add: DoMigrations_def trace_extern split: sum.splits)

lemma Init_unfold:
  "Init adapterConnect adapterDoMigrations ImportHeaders cfg log s =
     (let c = Connect adapterConnect (cfg_DbConfig cfg) s;
          db = fst (fst c);
          m = DoMigrations adapterDoMigrations db (cfg_DbConfig cfg) (snd c);
          i = extern ImportHeadersCall (ImportHeaders db cfg log) (snd m)
      in case snd (fst c) of
           Some err \<Rightarrow> ((None, Some err), snd c)
         | None \<Rightarrow>
             (case fst m of
                Some err \<Rightarrow> ((None, Some err), snd m)
              | None \<Rightarrow>
                  if PreparedDb (cfg_DbConfig cfg) then
                    (case fst i of
                       Some err \<Rightarrow> ((None, Some err), snd i)
                     | None \<Rightarrow> ((db, None), snd i))
                  else ((db, None), snd m)))"
proof -
  obtain db e1 s1 where c: "Connect adapterConnect (cfg_DbConfig cfg) s = ((db, e1), s1)"
    by (metis prod.collapse)
  obtain e2 s2 where m: "DoMigrations adapterDoMigrations db (cfg_DbConfig cfg) s1 = (e2, s2)"
    by (metis prod.collapse)
  obtain e3 s3 where i: "extern ImportHeadersCall (ImportHeaders db cfg log) s2 = (e3, s3)"
    by (metis prod.collapse)
  show ?thesis
    by (cases e1; cases e2; cases e3) (simp_all add: Init_def c m i)
qed

text \<open>
  C3. \<open>Init\<close> calls \<open>ImportHeaders\<close> if and only if \<open>cfg.DbConfig.PreparedDb\<close> is true and
  both \<open>Connect\<close> and \<open>DoMigrations\<close> returned a nil error: the run gains exactly one
  \<open>ImportHeaders\<close> call in that case and none otherwise. If \<open>Connect\<close>, \<open>DoMigrations\<close> or
  \<open>ImportHeaders\<close> returns an error \<open>e\<close>, \<open>Init\<close> returns the nil handle together with \<open>e\<close>.
  The default configuration has \<open>PreparedDb = false\<close> and
  \<open>PreparedDbFilePath = "./data/blockheaders.csv.gz"\<close>.
\<close>

theorem Init_ImportHeaders:
  fixes cfg :: AppConfig
  shows
  "(let c = Connect adapterConnect (cfg_DbConfig cfg) s;
        db = fst (fst c);
        m = DoMigrations adapterDoMigrations db (cfg_DbConfig cfg) (snd c);
        i = ImportHeaders db cfg log (world (snd m));
        r = Init adapterConnect adapterDoMigrations ImportHeaders cfg log s
    in count_list (trace (snd r)) ImportHeadersCall =
         count_list (trace s) ImportHeadersCall +
         (if PreparedDb (cfg_DbConfig cfg) \<and> snd (fst c) = None \<and> fst m = None then 1 else 0) \<and>
       (snd (fst c) = Some e \<longrightarrow> fst r = (None, Some e)) \<and>
       (snd (fst c) = None \<and> fst m = Some e \<longrightarrow> fst r = (None, Some e)) \<and>
       (snd (fst c) = None \<and> fst m = None \<and> PreparedDb (cfg_DbConfig cfg) \<and> fst i = Some e \<longrightarrow>
          fst r = (None, Some e))) \<and>
   PreparedDb (cfg_DbConfig GetDefaultAppConfig) = False \<and>
   PreparedDbFilePath (cfg_DbConfig GetDefaultAppConfig) = ''./data/blockheaders.csv.gz''"
proof -
  define c where "c = Connect adapterConnect (cfg_DbConfig cfg) s"
  define m where "m = DoMigrations adapterDoMigrations (fst (fst c)) (cfg_DbConfig cfg) (snd c)"
  define i where "i = extern ImportHeadersCall (ImportHeaders (fst (fst c)) cfg log) (snd m)"
  define r where "r = Init adapterConnect adapterDoMigrations ImportHeaders cfg log s"
  have r: "r = (case snd (fst c) of
           Some err \<Rightarrow> ((None, Some err), snd c)
         | None \<Rightarrow>
             (case fst m of
                Some err \<Rightarrow> ((None, Some err), snd m)
              | None \<Rightarrow>
                  if PreparedDb (cfg_DbConfig cfg) then
                    (case fst i of
                       Some err \<Rightarrow> ((None, Some err), snd i)
                     | None \<Rightarrow> ((fst (fst c), None), snd i))
                  else ((fst (fst c), None), snd m)))"
    unfolding r_def c_def m_def i_def by (simp add: Init_unfold Let_def)
  have tc: "count_list (trace (snd c)) ImportHeadersCall = count_list (trace s) ImportHeadersCall"
    unfolding c_def by (rule count_ImportHeaders_Connect)
  have tm: "count_list (trace (snd m)) ImportHeadersCall = count_list (trace s) ImportHeadersCall"
    unfolding m_def by (simp add: count_ImportHeaders_DoMigrations tc)
  have ti: "count_list (trace (snd i)) ImportHeadersCall = count_list (trace s) ImportHeadersCall + 1"
    unfolding i_def by (simp add: trace_extern tm)
  have fi: "fst i = fst (ImportHeaders (fst (fst c)) cfg log (world (snd m)))"
    unfolding i_def by (rule fst_extern)
  have 1: "count_list (trace (snd r)) ImportHeadersCall =
         count_list (trace s) ImportHeadersCall +
         (if PreparedDb (cfg_DbConfig cfg) \<and> snd (fst c) = None \<and> fst m = None then 1 else 0)"
    by (simp add: r tc tm ti split: option.splits)
  have 2: "snd (fst c) = Some e \<longrightarrow> fst r = (None, Some e)"
    by (simp add: r)
  have 3: "snd (fst c) = None \<and> fst m = Some e \<longrightarrow> fst r = (None, Some e)"
    by (simp add: r)
  have 4: "snd (fst c) = None \<and> fst m = None \<and> PreparedDb (cfg_DbConfig cfg) \<and>
      fst (ImportHeaders (fst (fst c)) cfg log (world (snd m))) = Some e \<longrightarrow>
      fst r = (None, Some e)"
    by (simp add: r fi)
  have 5: "PreparedDb (cfg_DbConfig GetDefaultAppConfig) = False \<and>
      PreparedDbFilePath (cfg_DbConfig GetDefaultAppConfig) = ''./data/blockheaders.csv.gz''"
    by (simp add: GetDefaultAppConfig_def getDbDefaults_def)
  from 1 2 3 4 5 show ?thesis
    unfolding r_def c_def m_def Let_def by blast
qed

theorem Init_ImportHeaders_witness:
  "PreparedDb (cfg_DbConfig (GetDefaultAppConfig\<lparr>cfg_DbConfig := getDbDefaults\<lparr>PreparedDb := True\<rparr>\<rparr>)) \<and>
   count_list (trace (snd (Init
       (\<lambda>a c w. ((Some (1 :: nat), None :: string error option), Suc w))
       (\<lambda>a d c w. (None, Suc w))
       (\<lambda>d c l w. (None, Suc w))
       (GetDefaultAppConfig\<lparr>cfg_DbConfig := getDbDefaults\<lparr>PreparedDb := True\<rparr>\<rparr>) ()
       \<lparr>world = 0 :: nat, trace = []\<rparr>))) ImportHeadersCall = 1 \<and>
   count_list (trace (snd (Init
       (\<lambda>a c w. ((Some (1 :: nat), None :: string error option), Suc w))
       (\<lambda>a d c w. (None, Suc w))
       (\<lambda>d c l w. (None, Suc w))
       GetDefaultAppConfig ()
       \<lparr>world = 0 :: nat, trace = []\<rparr>))) ImportHeadersCall = 0 \<and>
   fst (Init
       (\<lambda>a c w. ((None :: nat option, Some (Foreign ''cannot open'')), w))
       (\<lambda>a d c w. (None, Suc w))
       (\<lambda>d c l w. (None, Suc w))
       (GetDefaultAppConfig\<lparr>cfg_DbConfig := getDbDefaults\<lparr>PreparedDb := True\<rparr>\<rparr>) ()
       \<lparr>world = 0 :: nat, trace = []\<rparr>) = (None, Some (Foreign ''cannot open'')) \<and>
   fst (Init
       (\<lambda>a c w. ((Some (1 :: nat), None), Suc w))
       (\<lambda>a d c w. (Some (Foreign ''bad schema''), w))
       (\<lambda>d c l w. (None, Suc w))
       (GetDefaultAppConfig\<lparr>cfg_DbConfig := getDbDefaults\<lparr>PreparedDb := True\<rparr>\<rparr>) ()
       \<lparr>world = 0 :: nat, trace = []\<rparr>) = (None, Some (Foreign ''bad schema'')) \<and>
   fst (Init
       (\<lambda>a c w. ((Some (1 :: nat), None), Suc w))
       (\<lambda>a d c w. (None, Suc w))
       (\<lambda>d c l w. (Some (Foreign ''bad csv''), w))
       (GetDefaultAppConfig\<lparr>cfg_DbConfig := getDbDefaults\<lparr>PreparedDb := True\<rparr>\<rparr>) ()
       \<lparr>world = 0 :: nat, trace = []\<rparr>) = (None, Some (Foreign ''bad csv''))"
  using Init_ImportHeaders
    [where adapterConnect = "\<lambda>a c w. ((Some (1 :: nat), None :: string error option), Suc w)"
      and adapterDoMigrations = "\<lambda>a d c w. (None, Suc w)"
      and ImportHeaders = "\<lambda>d c l w. (None, Suc w)"
      and cfg = "GetDefaultAppConfig\<lparr>cfg_DbConfig := getDbDefaults\<lparr>PreparedDb := True\<rparr>\<rparr>"
      and log = "()" and s = "\<lparr>world = 0 :: nat, trace = []\<rparr>" and e = "Foreign ''none''"]
    Init_ImportHeaders
    [where adapterConnect = "\<lambda>a c w. ((Some (1 :: nat), None :: string error option), Suc w)"
      and adapterDoMigrations = "\<lambda>a d c w. (None, Suc w)"
      and ImportHeaders = "\<lambda>d c l w. (None, Suc w)"
      and cfg = "GetDefaultAppConfig"
      and log = "()" and s = "\<lparr>world = 0 :: nat, trace = []\<rparr>" and e = "Foreign ''none''"]
    Init_ImportHeaders
    [where adapterConnect = "\<lambda>a c w. ((None :: nat option, Some (Foreign ''cannot open'')), w)"
      and adapterDoMigrations = "\<lambda>a d c w. (None, Suc w)"
      and ImportHeaders = "\<lambda>d c l w. (None, Suc w)"
      and cfg = "GetDefaultAppConfig\<lparr>cfg_DbConfig := getDbDefaults\<lparr>PreparedDb := True\<rparr>\<rparr>"
      and log = "()" and s = "\<lparr>world = 0 :: nat, trace = []\<rparr>" and e = "Foreign ''cannot open''"]
    Init_ImportHeaders
    [where adapterConnect = "\<lambda>a c w. ((Some (1 :: nat), None), Suc w)"
      and adapterDoMigrations = "\<lambda>a d c w. (Some (Foreign ''bad schema''), w)"
      and ImportHeaders = "\<lambda>d c l w. (None, Suc w)"
      and cfg = "GetDefaultAppConfig\<lparr>cfg_DbConfig := getDbDefaults\<lparr>PreparedDb := True\<rparr>\<rparr>"
      and log = "()" and s = "\<lparr>world = 0 :: nat, trace = []\<rparr>" and e = "Foreign ''bad schema''"]
    Init_ImportHeaders
    [where adapterConnect = "\<lambda>a c w. ((Some (1 :: nat), None), Suc w)"
      and adapterDoMigrations = "\<lambda>a d c w. (None, Suc w)"
      and ImportHeaders = "\<lambda>d c l w. (Some (Foreign ''bad csv''), w)"
      and cfg = "GetDefaultAppConfig\<lparr>cfg_DbConfig := getDbDefaults\<lparr>PreparedDb := True\<rparr>\<rparr>"
      and log = "()" and s = "\<lparr>world = 0 :: nat, trace = []\<rparr>" and e = "Foreign ''bad csv''"]
  by (simp add: Let_def Connect_def DoMigrations_def NewDBAdapter_def extern_def
      GetDefaultAppConfig_def getDbDefaults_def DBSqlite_def)

text \<open>
  C4. \<open>NewDBAdapter\<close> returns the \<open>SQLiteAdapter\<close> exactly when \<open>cfg.Type\<close> is
  \<open>config.DBSqlite\<close>, which is \<open>"sqlite"\<close>; for every other type it returns the nil adapter and
  the error \<open>unsupported database type <type>\<close>, and then \<open>Connect\<close> and \<open>DoMigrations\<close>
  fail with that error without calling the adapter. The default configuration selects
  sqlite.
\<close>

theorem NewDBAdapter_sqlite_only:
  fixes cfg :: DbConfig
    and adapterConnect :: "DBAdapter \<Rightarrow> DbConfig \<Rightarrow> 'w \<Rightarrow> ('db option \<times> 'e error option) \<times> 'w"
    and adapterDoMigrations :: "DBAdapter \<Rightarrow> 'db option \<Rightarrow> DbConfig \<Rightarrow> 'w \<Rightarrow> 'e error option \<times> 'w"
  shows
  "((NewDBAdapter cfg :: 'e error + DBAdapter) = Inr SQLiteAdapter) = (Type cfg = DBSqlite) \<and>
   (Type cfg \<noteq> DBSqlite \<longrightarrow>
      (NewDBAdapter cfg :: 'e error + DBAdapter) =
        Inl (Errorf (''unsupported database type '' @ Type cfg)) \<and>
      Connect adapterConnect cfg s =
        ((None, Some (Errorf (''unsupported database type '' @ Type cfg))), s) \<and>
      DoMigrations adapterDoMigrations db cfg s =
        (Some (Errorf (''unsupported database type '' @ Type cfg)), s)) \<and>
   Type (cfg_DbConfig GetDefaultAppConfig) = DBSqlite \<and>
   DBSqlite = ''sqlite''"
  by (simp add: NewDBAdapter_def Connect_def DoMigrations_def GetDefaultAppConfig_def
      getDbDefaults_def DBSqlite_def)

theorem NewDBAdapter_sqlite_only_witness:
  "Type (getDbDefaults\<lparr>Type := ''postgresql''\<rparr>) \<noteq> DBSqlite \<and>
   (NewDBAdapter (getDbDefaults\<lparr>Type := ''postgresql''\<rparr>) :: string error + DBAdapter) =
     Inl (Errorf ''unsupported database type postgresql'') \<and>
   Connect (\<lambda>a c w. ((Some (1 :: nat), None :: string error option), Suc w))
       (getDbDefaults\<lparr>Type := ''postgresql''\<rparr>) \<lparr>world = 0 :: nat, trace = []\<rparr> =
     ((None, Some (Errorf ''unsupported database type postgresql'')), \<lparr>world = 0, trace = []\<rparr>) \<and>
   DoMigrations (\<lambda>a d c w. (None :: string error option, Suc w)) (Some (1 :: nat))
       (getDbDefaults\<lparr>Type := ''postgresql''\<rparr>) \<lparr>world = 0 :: nat, trace = []\<rparr> =
     (Some (Errorf ''unsupported database type postgresql''), \<lparr>world = 0, trace = []\<rparr>)"
  using NewDBAdapter_sqlite_only
    [where cfg = "getDbDefaults\<lparr>Type := ''postgresql''\<rparr>"
      and adapterConnect = "\<lambda>a c w. ((Some (1 :: nat), None :: string error option), Suc w)"
      and adapterDoMigrations = "\<lambda>a d c w. (None :: string error option, Suc w)"
      and db = "Some (1 :: nat)" and s = "\<lparr>world = 0 :: nat, trace = []\<rparr>"]
  by (simp add: getDbDefaults_def DBSqlite_def)

subsection \<open>Decimal text of big integers\<close>

lemma digit_val_digit_char: "d < 10 \<Longrightarrow> digit_val (digit_char d) = d"
  by (simp add: digit_val_def digit_char_def)

lemma is_digit_digit_char: "d < 10 \<Longrightarrow> is_digit (digit_char d)"
  by (simp add: is_digit_def digit_char_def)

lemma decimal_nonempty: "decimal n \<noteq> []"
  by (subst decimal.simps) simp

lemma decimal_digits: "list_all is_digit (decimal n)"
proof (induction n rule: decimal.induct)
  case (1 n)
  show ?case
  proof (cases "n < 10")
    case True
    then show ?thesis
      by (subst decimal.simps) (simp add: is_digit_digit_char)
  next
    case False
    with "1" show ?thesis
      by (subst decimal.simps) (simp add: is_digit_digit_char)
  qed
qed

lemma scan_digits_snoc: "scan_digits acc (cs @ [c]) = scan_digits acc cs * 10 + digit_val c"
  by (induction cs arbitrary: acc) simp_all

lemma scan_digits_decimal: "scan_digits 0 (decimal n) = n"
proof (induction n rule: decimal.induct)
  case (1 n)
  show ?case
  proof (cases "n < 10")
    case True
    then show ?thesis
      by (subst decimal.simps) (simp add: digit_val_digit_char)
  next
    case False
    with "1" have "scan_digits 0 (decimal (n div 10)) = n div 10"
      by simp
    with False show ?thesis
      by (subst decimal.simps) (simp add: scan_digits_snoc digit_val_digit_char)
  qed
qed

lemma is_digit_not_sign: "is_digit c \<Longrightarrow> c \<noteq> CHR ''-'' \<and> c \<noteq> CHR ''+''"
  by (auto simp add: is_digit_def)

lemma SetString10_decimal: "SetString10 (decimal n) = Some (int n)"
proof -
  obtain c cs where d: "decimal n = c # cs"
    using decimal_nonempty [of n] by (cases "decimal n") simp_all
  have "list_all is_digit (c # cs)"
    using decimal_digits [of n] by (simp add: d)
  then have "c \<noteq> CHR ''-'' \<and> c \<noteq> CHR ''+''" and l: "list_all is_digit (c # cs)"
    by (simp_all add: is_digit_not_sign)
  moreover have "scan_digits 0 (c # cs) = n"
    using scan_digits_decimal [of n] by (simp add: d)
  ultimately show ?thesis
    by (simp add: SetString10_def d)
qed

lemma SetString10_minus_decimal: "SetString10 (CHR ''-'' # decimal n) = Some (- int n)"
  using decimal_nonempty [of n] decimal_digits [of n] scan_digits_decimal [of n]
  by (simp add: SetString10_def)

lemma SetString10_Int_String: "SetString10 (Int_String (Some k)) = Some k"
  by (simp add: Int_String_def SetString10_decimal SetString10_minus_decimal)

lemma Int_String_nonempty: "Int_String x \<noteq> []"
  by (simp add: Int_String_def decimal_nonempty split: option.splits)

lemma SetString10_empty: "SetString10 [] = None"
  by (simp add: SetString10_def)

lemma SetString10_zero: "SetString10 ''0'' = Some 0"
  by (simp add: SetString10_def is_digit_def digit_val_def)

lemma SetString10_examples:
  "SetString10 ''+012'' = Some 12 \<and> SetString10 ''-7'' = Some (- 7) \<and> SetString10 ''<nil>'' = None \<and>
   SetString10 '' 1'' = None \<and> SetString10 ''1_0'' = None \<and> SetString10 ''-'' = None"
  by (simp add: SetString10_def is_digit_def digit_val_def)

lemma Int_String_examples:
  "Int_String (Some (- 305)) = ''-305'' \<and> Int_String (Some 0) = ''0'' \<and> Int_String None = ''<nil>''"
  by (simp add: Int_String_def decimal.simps digit_char_def char_of_def bit_Suc_0_iff)

subsection \<open>Header conversions\<close>

text \<open>What \<open>ToBlockHeader\<close> returns once the three hash pointers are known.\<close>

lemma ToBlockHeader_Some:
  assumes "fst (NewHashFromStr (dbh_Hash dbh)) = Some h"
    and "fst (NewHashFromStr (dbh_MerkleRoot dbh)) = Some m"
    and "fst (NewHashFromStr (dbh_PreviousBlock dbh)) = Some p"
  shows "fst (ToBlockHeader NewHashFromStr dbh) =
     Inr \<lparr>bh_Height = dbh_Height dbh,
          bh_Hash = h,
          bh_Version = dbh_Version dbh,
          bh_MerkleRoot = m,
          bh_Timestamp = dbh_Timestamp dbh,
          bh_Bits = dbh_Bits dbh,
          bh_Nonce = dbh_Nonce dbh,
          bh_Chainwork = (case SetString10 (dbh_Chainwork dbh) of None \<Rightarrow> Some 0 | Some z \<Rightarrow> Some z),
          bh_CumulatedWork =
            (if dbh_CumulatedWork dbh = [] then Some 0
             else case SetString10 (dbh_CumulatedWork dbh) of None \<Rightarrow> Some 0 | Some z \<Rightarrow> Some z),
          bh_State = dbh_State dbh,
          bh_PreviousBlock = p\<rparr>"
  using assms by (simp add: ToBlockHeader_def Let_def NewInt_def SetString10_zero split: option.splits)

lemma ToBlockHeader_None:
  assumes "fst (NewHashFromStr (dbh_Hash dbh)) = None \<or>
     fst (NewHashFromStr (dbh_MerkleRoot dbh)) = None \<or>
     fst (NewHashFromStr (dbh_PreviousBlock dbh)) = None"
  shows "fst (ToBlockHeader NewHashFromStr dbh) = Inl NilPointerDereference"
  using assms by (auto simp add: ToBlockHeader_def Let_def split: option.splits)

text \<open>
  C2. For every \<open>BlockHeader\<close> whose \<open>Chainwork\<close> and \<open>CumulatedWork\<close> are non-negative big
  integers and whose \<open>Hash\<close>, \<open>MerkleRoot\<close> and \<open>PreviousBlock\<close> string forms parse back to
  those hashes, \<open>ToBlockHeader (ToDbBlockHeader bh)\<close> is \<open>bh\<close>, field by field; the two work
  fields are stored as their base-10 digits and \<open>SetString(\<cdot>, 10)\<close> reads the same numbers
  back. \<open>HeaderState.String\<close> is taken to return the string the state was converted from.
\<close>

theorem ToBlockHeader_ToDbBlockHeader:
  fixes bh :: "('h, 't) BlockHeader"
  assumes "bh_Chainwork bh = Some cw" and "0 \<le> cw"
    and "bh_CumulatedWork bh = Some cu" and "0 \<le> cu"
    and "fst (NewHashFromStr (Hash_String (bh_Hash bh))) = Some (bh_Hash bh)"
    and "fst (NewHashFromStr (Hash_String (bh_MerkleRoot bh))) = Some (bh_MerkleRoot bh)"
    and "fst (NewHashFromStr (Hash_String (bh_PreviousBlock bh))) = Some (bh_PreviousBlock bh)"
    and "HeaderState_String (bh_State bh) = bh_State bh"
  shows "fst (ToBlockHeader NewHashFromStr (ToDbBlockHeader Hash_String HeaderState_String bh)) = Inr bh \<and>
    dbh_Chainwork (ToDbBlockHeader Hash_String HeaderState_String bh) = decimal (nat cw) \<and>
    SetString10 (dbh_Chainwork (ToDbBlockHeader Hash_String HeaderState_String bh)) = Some cw \<and>
    dbh_CumulatedWork (ToDbBlockHeader Hash_String HeaderState_String bh) = decimal (nat cu) \<and>
    SetString10 (dbh_CumulatedWork (ToDbBlockHeader Hash_String HeaderState_String bh)) = Some cu"
proof -
  let ?d = "ToDbBlockHeader Hash_String HeaderState_String bh"
  have w: "dbh_Chainwork ?d = Int_String (Some cw)" "dbh_CumulatedWork ?d = Int_String (Some cu)"
    using assms(1,3) by (simp_all add: ToDbBlockHeader_def)
  have "fst (NewHashFromStr (dbh_Hash ?d)) = Some (bh_Hash bh)"
    and "fst (NewHashFromStr (dbh_MerkleRoot ?d)) = Some (bh_MerkleRoot bh)"
    and "fst (NewHashFromStr (dbh_PreviousBlock ?d)) = Some (bh_PreviousBlock bh)"
    using assms(5-7) by (simp_all add: ToDbBlockHeader_def)
  then have "fst (ToBlockHeader NewHashFromStr ?d) =
     Inr \<lparr>bh_Height = dbh_Height ?d,
          bh_Hash = bh_Hash bh,
          bh_Version = dbh_Version ?d,
          bh_MerkleRoot = bh_MerkleRoot bh,
          bh_Timestamp = dbh_Timestamp ?d,
          bh_Bits = dbh_Bits ?d,
          bh_Nonce = dbh_Nonce ?d,
          bh_Chainwork = Some cw,
          bh_CumulatedWork = Some cu,
          bh_State = dbh_State ?d,
          bh_PreviousBlock = bh_PreviousBlock bh\<rparr>"
    by (simp add: ToBlockHeader_Some w SetString10_Int_String Int_String_nonempty)
  then have 1: "fst (ToBlockHeader NewHashFromStr ?d) = Inr bh"
    using assms(1,3,8) by (simp add: ToDbBlockHeader_def)
  have 2: "dbh_Chainwork ?d = decimal (nat cw)" "dbh_CumulatedWork ?d = decimal (nat cu)"
    using assms(2,4) by (simp_all add: w Int_String_def)
  have 3: "SetString10 (dbh_Chainwork ?d) = Some cw" "SetString10 (dbh_CumulatedWork ?d) = Some cu"
    by (simp_all only: w SetString10_Int_String)
  from 1 2 3 show ?thesis by simp
qed

theorem ToBlockHeader_ToDbBlockHeader_witness:
  "bh_Chainwork \<lparr>bh_Height = 7 :: int32, bh_Hash = ''aa'', bh_Version = 1 :: int32, bh_MerkleRoot = ''bb'',
       bh_Timestamp = 0 :: nat, bh_Bits = 5 :: uint32, bh_Nonce = 9 :: uint32, bh_Chainwork = Some 12,
       bh_CumulatedWork = Some 345, bh_State = ''LONGEST_CHAIN'', bh_PreviousBlock = ''cc''\<rparr> = Some 12 \<and>
   (0 :: int) \<le> 12 \<and> (0 :: int) \<le> 345 \<and>
   fst ((\<lambda>s. if length s = 2 then (Some s, None) else (None, Some ''bad hash'')) ''aa'') = Some ''aa'' \<and>
   fst (ToBlockHeader (\<lambda>s. if length s = 2 then (Some s, None) else (None, Some ''bad hash''))
     (ToDbBlockHeader (\<lambda>h. h) (\<lambda>s. s)
       \<lparr>bh_Height = 7 :: int32, bh_Hash = ''aa'', bh_Version = 1 :: int32, bh_MerkleRoot = ''bb'',
        bh_Timestamp = 0 :: nat, bh_Bits = 5 :: uint32, bh_Nonce = 9 :: uint32, bh_Chainwork = Some 12,
        bh_CumulatedWork = Some 345, bh_State = ''LONGEST_CHAIN'', bh_PreviousBlock = ''cc''\<rparr>)) =
     Inr \<lparr>bh_Height = 7 :: int32, bh_Hash = ''aa'', bh_Version = 1 :: int32, bh_MerkleRoot = ''bb'',
        bh_Timestamp = 0 :: nat, bh_Bits = 5 :: uint32, bh_Nonce = 9 :: uint32, bh_Chainwork = Some 12,
        bh_CumulatedWork = Some 345, bh_State = ''LONGEST_CHAIN'', bh_PreviousBlock = ''cc''\<rparr> \<and>
   dbh_Chainwork (ToDbBlockHeader (\<lambda>h. h) (\<lambda>s. s)
       \<lparr>bh_Height = 7 :: int32, bh_Hash = ''aa'', bh_Version = 1 :: int32, bh_MerkleRoot = ''bb'',
        bh_Timestamp = 0 :: nat, bh_Bits = 5 :: uint32, bh_Nonce = 9 :: uint32, bh_Chainwork = Some 12,
        bh_CumulatedWork = Some 345, bh_State = ''LONGEST_CHAIN'', bh_PreviousBlock = ''cc''\<rparr>) = ''12'' \<and>
   dbh_CumulatedWork (ToDbBlockHeader (\<lambda>h. h) (\<lambda>s. s)
       \<lparr>bh_Height = 7 :: int32, bh_Hash = ''aa'', bh_Version = 1 :: int32, bh_MerkleRoot = ''bb'',
        bh_Timestamp = 0 :: nat, bh_Bits = 5 :: uint32, bh_Nonce = 9 :: uint32, bh_Chainwork = Some 12,
        bh_CumulatedWork = Some 345, bh_State = ''LONGEST_CHAIN'', bh_PreviousBlock = ''cc''\<rparr>) = ''345''"
  using ToBlockHeader_ToDbBlockHeader
    [where bh = "\<lparr>bh_Height = 7 :: int32, bh_Hash = ''aa'', bh_Version = 1 :: int32, bh_MerkleRoot = ''bb'',
        bh_Timestamp = 0 :: nat, bh_Bits = 5 :: uint32, bh_Nonce = 9 :: uint32, bh_Chainwork = Some 12,
        bh_CumulatedWork = Some 345, bh_State = ''LONGEST_CHAIN'', bh_PreviousBlock = ''cc''\<rparr>"
      and cw = 12 and cu = 345
      and NewHashFromStr = "\<lambda>s. if length s = 2 then (Some s, None) else (None, Some ''bad hash'')"
      and Hash_String = "\<lambda>h. h" and HeaderState_String = "\<lambda>s. s"]
  by (simp add: decimal.simps digit_char_def char_of_def bit_Suc_0_iff)

text \<open>
  C6. \<open>ToBlockHeader\<close> ignores the error results of \<open>NewHashFromStr\<close> and dereferences
  the three returned pointers: it panics with a nil-pointer dereference exactly when the
  pointer returned for \<open>Hash\<close>, \<open>MerkleRoot\<close> or \<open>PreviousBlock\<close> is nil, it returns a header
  exactly when all three are non-nil, and its outcome is unchanged when every error result
  is replaced by nil.
\<close>

theorem ToBlockHeader_nil_hash:
  fixes NewHashFromStr :: "string \<Rightarrow> 'h option \<times> 'e option" and dbh :: "'t DbBlockHeader"
  shows
  "(fst (ToBlockHeader NewHashFromStr dbh) = Inl NilPointerDereference) =
     (fst (NewHashFromStr (dbh_Hash dbh)) = None \<or>
      fst (NewHashFromStr (dbh_MerkleRoot dbh)) = None \<or>
      fst (NewHashFromStr (dbh_PreviousBlock dbh)) = None) \<and>
   (\<exists>bh. fst (ToBlockHeader NewHashFromStr dbh) = Inr bh) =
     (\<exists>h m p. fst (NewHashFromStr (dbh_Hash dbh)) = Some h \<and>
        fst (NewHashFromStr (dbh_MerkleRoot dbh)) = Some m \<and>
        fst (NewHashFromStr (dbh_PreviousBlock dbh)) = Some p) \<and>
   fst (ToBlockHeader NewHashFromStr dbh) =
     fst (ToBlockHeader (\<lambda>s. (fst (NewHashFromStr s), None :: 'e option)) dbh)"
proof (cases "\<exists>h m p. fst (NewHashFromStr (dbh_Hash dbh)) = Some h \<and>
        fst (NewHashFromStr (dbh_MerkleRoot dbh)) = Some m \<and>
        fst (NewHashFromStr (dbh_PreviousBlock dbh)) = Some p")
  case True
  then obtain h m p where hs: "fst (NewHashFromStr (dbh_Hash dbh)) = Some h"
      "fst (NewHashFromStr (dbh_MerkleRoot dbh)) = Some m"
      "fst (NewHashFromStr (dbh_PreviousBlock dbh)) = Some p"
    by blast
  show ?thesis
    using hs ToBlockHeader_Some [of NewHashFromStr dbh h m p]
      ToBlockHeader_Some [of "\<lambda>s. (fst (NewHashFromStr s), None :: 'e option)" dbh h m p]
    by simp
next
  case False
  then have n: "fst (NewHashFromStr (dbh_Hash dbh)) = None \<or>
      fst (NewHashFromStr (dbh_MerkleRoot dbh)) = None \<or>
      fst (NewHashFromStr (dbh_PreviousBlock dbh)) = None"
    by auto
  from n have 1: "fst (ToBlockHeader NewHashFromStr dbh) = Inl NilPointerDereference"
    by (rule ToBlockHeader_None)
  from n have 2: "fst (ToBlockHeader (\<lambda>s. (fst (NewHashFromStr s), None :: 'e option)) dbh) =
      Inl NilPointerDereference"
    by (intro ToBlockHeader_None) simp
  from False n 1 2 show ?thesis by simp
qed

theorem ToBlockHeader_nil_hash_witness:
  "fst ((\<lambda>s. if length s = 2 then (Some s, None) else (None, Some ''bad hash'')) ''zzz'') = None \<and>
   fst (ToBlockHeader (\<lambda>s. if length s = 2 then (Some s, None) else (None, Some ''bad hash''))
     \<lparr>dbh_Height = 7 :: int32, dbh_Hash = ''aa'', dbh_Version = 1 :: int32, dbh_MerkleRoot = ''zzz'',
      dbh_Timestamp = 0 :: nat, dbh_Bits = 5 :: uint32, dbh_Nonce = 9 :: uint32, dbh_State = ''STALE'',
      dbh_Chainwork = ''12'', dbh_CumulatedWork = ''345'', dbh_PreviousBlock = ''cc''\<rparr>) =
     Inl NilPointerDereference"
  using ToBlockHeader_nil_hash
    [where NewHashFromStr = "\<lambda>s. if length s = 2 then (Some s, None) else (None, Some ''bad hash'')"
      and dbh = "\<lparr>dbh_Height = 7 :: int32, dbh_Hash = ''aa'', dbh_Version = 1 :: int32, dbh_MerkleRoot = ''zzz'',
      dbh_Timestamp = 0 :: nat, dbh_Bits = 5 :: uint32, dbh_Nonce = 9 :: uint32, dbh_State = ''STALE'',
      dbh_Chainwork = ''12'', dbh_CumulatedWork = ''345'', dbh_PreviousBlock = ''cc''\<rparr>"]
  by simp

text \<open>
  C7. When \<open>CumulatedWork\<close> is empty or is not a base-10 integer, or \<open>Chainwork\<close> is not a
  base-10 integer, \<open>ToBlockHeader\<close> behaves exactly as on the record holding \<open>"0"\<close> in that
  field: no error or panic comes from the field, and whenever the three hashes parse the
  header is returned with the numeric value 0 there.
\<close>

theorem ToBlockHeader_unparseable_work:
  fixes NewHashFromStr :: "string \<Rightarrow> 'h option \<times> 'e option" and dbh :: "'t DbBlockHeader"
  shows
  "(dbh_CumulatedWork dbh = [] \<or> SetString10 (dbh_CumulatedWork dbh) = None \<longrightarrow>
      fst (ToBlockHeader NewHashFromStr dbh) =
        fst (ToBlockHeader NewHashFromStr (dbh\<lparr>dbh_CumulatedWork := ''0''\<rparr>)) \<and>
      (fst (NewHashFromStr (dbh_Hash dbh)) = Some h \<and>
       fst (NewHashFromStr (dbh_MerkleRoot dbh)) = Some m \<and>
       fst (NewHashFromStr (dbh_PreviousBlock dbh)) = Some p \<longrightarrow>
         (\<exists>bh. fst (ToBlockHeader NewHashFromStr dbh) = Inr bh \<and> bh_CumulatedWork bh = Some 0))) \<and>
   (SetString10 (dbh_Chainwork dbh) = None \<longrightarrow>
      fst (ToBlockHeader NewHashFromStr dbh) =
        fst (ToBlockHeader NewHashFromStr (dbh\<lparr>dbh_Chainwork := ''0''\<rparr>)) \<and>
      (fst (NewHashFromStr (dbh_Hash dbh)) = Some h \<and>
       fst (NewHashFromStr (dbh_MerkleRoot dbh)) = Some m \<and>
       fst (NewHashFromStr (dbh_PreviousBlock dbh)) = Some p \<longrightarrow>
         (\<exists>bh. fst (ToBlockHeader NewHashFromStr dbh) = Inr bh \<and> bh_Chainwork bh = Some 0)))"
proof (intro conjI impI)
  assume "dbh_CumulatedWork dbh = [] \<or> SetString10 (dbh_CumulatedWork dbh) = None"
  then show "fst (ToBlockHeader NewHashFromStr dbh) =
        fst (ToBlockHeader NewHashFromStr (dbh\<lparr>dbh_CumulatedWork := ''0''\<rparr>))"
    by (auto simp add: ToBlockHeader_def Let_def NewInt_def SetString10_zero split: option.splits)
next
  assume u: "dbh_CumulatedWork dbh = [] \<or> SetString10 (dbh_CumulatedWork dbh) = None"
    and "fst (NewHashFromStr (dbh_Hash dbh)) = Some h \<and>
       fst (NewHashFromStr (dbh_MerkleRoot dbh)) = Some m \<and>
       fst (NewHashFromStr (dbh_PreviousBlock dbh)) = Some p"
  then show "\<exists>bh. fst (ToBlockHeader NewHashFromStr dbh) = Inr bh \<and> bh_CumulatedWork bh = Some 0"
    using ToBlockHeader_Some [of NewHashFromStr dbh h m p] by auto
next
  assume "SetString10 (dbh_Chainwork dbh) = None"
  then show "fst (ToBlockHeader NewHashFromStr dbh) =
        fst (ToBlockHeader NewHashFromStr (dbh\<lparr>dbh_Chainwork := ''0''\<rparr>))"
    by (auto simp add: ToBlockHeader_def Let_def NewInt_def SetString10_zero split: option.splits)
next
  assume u: "SetString10 (dbh_Chainwork dbh) = None"
    and "fst (NewHashFromStr (dbh_Hash dbh)) = Some h \<and>
       fst (NewHashFromStr (dbh_MerkleRoot dbh)) = Some m \<and>
       fst (NewHashFromStr (dbh_PreviousBlock dbh)) = Some p"
  then show "\<exists>bh. fst (ToBlockHeader NewHashFromStr dbh) = Inr bh \<and> bh_Chainwork bh = Some 0"
    using ToBlockHeader_Some [of NewHashFromStr dbh h m p] by auto
qed

theorem ToBlockHeader_unparseable_work_witness:
  "SetString10 ''12x'' = None \<and>
   (\<exists>bh. fst (ToBlockHeader (\<lambda>s. if length s = 2 then (Some s, None) else (None, Some ''bad hash''))
     \<lparr>dbh_Height = 7 :: int32, dbh_Hash = ''aa'', dbh_Version = 1 :: int32, dbh_MerkleRoot = ''bb'',
      dbh_Timestamp = 0 :: nat, dbh_Bits = 5 :: uint32, dbh_Nonce = 9 :: uint32, dbh_State = ''STALE'',
      dbh_Chainwork = ''12x'', dbh_CumulatedWork = '''', dbh_PreviousBlock = ''cc''\<rparr>) = Inr bh \<and>
     bh_CumulatedWork bh = Some 0) \<and>
   (\<exists>bh. fst (ToBlockHeader (\<lambda>s. if length s = 2 then (Some s, None) else (None, Some ''bad hash''))
     \<lparr>dbh_Height = 7 :: int32, dbh_Hash = ''aa'', dbh_Version = 1 :: int32, dbh_MerkleRoot = ''bb'',
      dbh_Timestamp = 0 :: nat, dbh_Bits = 5 :: uint32, dbh_Nonce = 9 :: uint32, dbh_State = ''STALE'',
      dbh_Chainwork = ''12x'', dbh_CumulatedWork = '''', dbh_PreviousBlock = ''cc''\<rparr>) = Inr bh \<and>
     bh_Chainwork bh = Some 0)"
proof -
  let ?N = "\<lambda>s :: string. if length s = 2 then (Some s, None) else (None :: string option, Some ''bad hash'')"
  let ?d = "\<lparr>dbh_Height = 7 :: int32, dbh_Hash = ''aa'', dbh_Version = 1 :: int32, dbh_MerkleRoot = ''bb'',
      dbh_Timestamp = 0 :: nat, dbh_Bits = 5 :: uint32, dbh_Nonce = 9 :: uint32, dbh_State = ''STALE'',
      dbh_Chainwork = ''12x'', dbh_CumulatedWork = '''', dbh_PreviousBlock = ''cc''\<rparr>"
  have u: "SetString10 ''12x'' = None"
    by (simp add: SetString10_def is_digit_def)
  have e: "dbh_CumulatedWork ?d = [] \<or> SetString10 (dbh_CumulatedWork ?d) = None"
    by simp
  have c: "SetString10 (dbh_Chainwork ?d) = None"
    using u by simp
  have hs: "fst (?N (dbh_Hash ?d)) = Some ''aa'' \<and> fst (?N (dbh_MerkleRoot ?d)) = Some ''bb'' \<and>
      fst (?N (dbh_PreviousBlock ?d)) = Some ''cc''"
    by simp
  from ToBlockHeader_unparseable_work
    [where NewHashFromStr = ?N and dbh = ?d and h = "''aa''" and m = "''bb''" and p = "''cc''"] e c hs u
  show ?thesis by blast
qed

subsection \<open>Slices of records\<close>

lemma fold_append_slice_Some:
  "fold (\<lambda>b a. append_slice a b) bs (Some xs) = Some (xs @ bs)"
  by (induction bs arbitrary: xs) simp_all

lemma fold_append_slice_None:
  "fold (\<lambda>b a. append_slice a b) bs None = (if bs = [] then None else Some bs)"
  by (cases bs) (simp_all add: fold_append_slice_Some)

lemma ConvertToBlockHeader_range_Inr:
  "list_all2 (\<lambda>d b. fst (ToBlockHeader NewHashFromStr d) = Inr b) ds bs \<Longrightarrow>
   fst (ConvertToBlockHeader_range NewHashFromStr ds acc) = Inr (fold (\<lambda>b a. append_slice a b) bs acc)"
proof (induction ds bs arbitrary: acc rule: list_all2_induct)
  case Nil
  show ?case by simp
next
  case (Cons d ds b bs)
  obtain d' where "ToBlockHeader NewHashFromStr d = (Inr b, d')"
    using Cons.hyps(1) by (cases "ToBlockHeader NewHashFromStr d") simp
  then show ?case
    using Cons.IH [of "append_slice acc b"] by (simp add: case_prod_beta)
qed

lemma ConvertToBlockHeader_range_Inl:
  "\<exists>d \<in> set ds. fst (ToBlockHeader NewHashFromStr d) = Inl NilPointerDereference \<Longrightarrow>
   fst (ConvertToBlockHeader_range NewHashFromStr ds acc) = Inl NilPointerDereference"
proof (induction ds arbitrary: acc)
  case Nil
  then show ?case by simp
next
  case (Cons d ds)
  obtain r d' where t: "ToBlockHeader NewHashFromStr d = (r, d')"
    by (cases "ToBlockHeader NewHashFromStr d")
  show ?case
  proof (cases r)
    case (Inl q)
    then show ?thesis using t by (cases q) simp
  next
    case (Inr b)
    with t Cons.prems have "\<exists>d \<in> set ds. fst (ToBlockHeader NewHashFromStr d) = Inl NilPointerDereference"
      by auto
    then have "fst (ConvertToBlockHeader_range NewHashFromStr ds (append_slice acc b)) =
        Inl NilPointerDereference"
      by (rule Cons.IH)
    with t Inr show ?thesis by (simp add: case_prod_beta)
  qed
qed

lemma ConvertToMerkleRootsConfirmations_range_map:
  "ConvertToMerkleRootsConfirmations_range rs m (Some acc) =
     Some (acc @ map (\<lambda>r. ToMerkleRootConfirmation r m) rs)"
  by (induction rs arbitrary: acc) simp_all

text \<open>
  C8. \<open>ConvertToBlockHeader\<close> returns nil for a nil slice; on a non-nil slice it applies
  \<open>ToBlockHeader\<close> to the elements in order: when every conversion returns, the result holds
  the converted headers in the same order and number (the nil slice when there are none),
  and a conversion that panics makes the whole call panic.
  \<open>ConvertToMerkleRootsConfirmations\<close> always returns a non-nil slice, empty for a nil or an
  empty input, holding the converted confirmations in the same order and number.
\<close>

theorem Convert_slices:
  fixes NewHashFromStr :: "string \<Rightarrow> 'h option \<times> 'e option" and ds :: "'t DbBlockHeader list"
  shows
  "fst (ConvertToBlockHeader NewHashFromStr (None :: 't DbBlockHeader list option)) = Inr None \<and>
   (list_all2 (\<lambda>d b. fst (ToBlockHeader NewHashFromStr d) = Inr b) ds bs \<longrightarrow>
      fst (ConvertToBlockHeader NewHashFromStr (Some ds)) = Inr (if bs = [] then None else Some bs)) \<and>
   ((\<exists>d \<in> set ds. fst (ToBlockHeader NewHashFromStr d) = Inl NilPointerDereference) \<longrightarrow>
      fst (ConvertToBlockHeader NewHashFromStr (Some ds)) = Inl NilPointerDereference) \<and>
   ConvertToMerkleRootsConfirmations None m = Some [] \<and>
   ConvertToMerkleRootsConfirmations (Some []) m = Some [] \<and>
   ConvertToMerkleRootsConfirmations (Some rs) m = Some (map (\<lambda>r. ToMerkleRootConfirmation r m) rs)"
proof (intro conjI impI)
  show "fst (ConvertToBlockHeader NewHashFromStr (None :: 't DbBlockHeader list option)) = Inr None"
    by (simp add: ConvertToBlockHeader_def)
next
  assume "list_all2 (\<lambda>d b. fst (ToBlockHeader NewHashFromStr d) = Inr b) ds bs"
  then have "fst (ConvertToBlockHeader_range NewHashFromStr ds None) =
      Inr (if bs = [] then None else Some bs)"
    by (simp add: ConvertToBlockHeader_range_Inr fold_append_slice_None)
  then show "fst (ConvertToBlockHeader NewHashFromStr (Some ds)) = Inr (if bs = [] then None else Some bs)"
    by (simp add: ConvertToBlockHeader_def case_prod_beta)
next
  assume "\<exists>d \<in> set ds. fst (ToBlockHeader NewHashFromStr d) = Inl NilPointerDereference"
  then have "fst (ConvertToBlockHeader_range NewHashFromStr ds None) = Inl NilPointerDereference"
    by (rule ConvertToBlockHeader_range_Inl)
  then show "fst (ConvertToBlockHeader NewHashFromStr (Some ds)) = Inl NilPointerDereference"
    by (simp add: ConvertToBlockHeader_def case_prod_beta)
next
  show "ConvertToMerkleRootsConfirmations None m = Some []"
    by (simp add: ConvertToMerkleRootsConfirmations_def)
next
  show "ConvertToMerkleRootsConfirmations (Some []) m = Some []"
    by (simp add: ConvertToMerkleRootsConfirmations_def)
next
  show "ConvertToMerkleRootsConfirmations (Some rs) m = Some (map (\<lambda>r. ToMerkleRootConfirmation r m) rs)"
    by (simp add: ConvertToMerkleRootsConfirmations_def ConvertToMerkleRootsConfirmations_range_map)
qed

theorem Convert_slices_witness:
  "list_all2 (\<lambda>d b. fst (ToBlockHeader
         (\<lambda>s. if length s = 2 then (Some s, None) else (None, Some ''bad hash'')) d) = Inr b)
     [\<lparr>dbh_Height = 7 :: int32, dbh_Hash = ''aa'', dbh_Version = 1 :: int32, dbh_MerkleRoot = ''bb'',
       dbh_Timestamp = 0 :: nat, dbh_Bits = 5 :: uint32, dbh_Nonce = 9 :: uint32, dbh_State = ''STALE'',
       dbh_Chainwork = ''12'', dbh_CumulatedWork = '''', dbh_PreviousBlock = ''cc''\<rparr>]
     [\<lparr>bh_Height = 7 :: int32, bh_Hash = ''aa'', bh_Version = 1 :: int32, bh_MerkleRoot = ''bb'',
       bh_Timestamp = 0 :: nat, bh_Bits = 5 :: uint32, bh_Nonce = 9 :: uint32, bh_Chainwork = Some 12,
       bh_CumulatedWork = Some 0, bh_State = ''STALE'', bh_PreviousBlock = ''cc''\<rparr>] \<and>
   fst (ConvertToBlockHeader (\<lambda>s. if length s = 2 then (Some s, None) else (None, Some ''bad hash''))
     (Some [\<lparr>dbh_Height = 7 :: int32, dbh_Hash = ''aa'', dbh_Version = 1 :: int32, dbh_MerkleRoot = ''bb'',
       dbh_Timestamp = 0 :: nat, dbh_Bits = 5 :: uint32, dbh_Nonce = 9 :: uint32, dbh_State = ''STALE'',
       dbh_Chainwork = ''12'', dbh_CumulatedWork = '''', dbh_PreviousBlock = ''cc''\<rparr>])) =
     Inr (Some [\<lparr>bh_Height = 7 :: int32, bh_Hash = ''aa'', bh_Version = 1 :: int32, bh_MerkleRoot = ''bb'',
       bh_Timestamp = 0 :: nat, bh_Bits = 5 :: uint32, bh_Nonce = 9 :: uint32, bh_Chainwork = Some 12,
       bh_CumulatedWork = Some 0, bh_State = ''STALE'', bh_PreviousBlock = ''cc''\<rparr>]) \<and>
   fst (ConvertToBlockHeader (\<lambda>s. if length s = 2 then (Some s, None) else (None, Some ''bad hash''))
     (Some [\<lparr>dbh_Height = 7 :: int32, dbh_Hash = ''aa'', dbh_Version = 1 :: int32, dbh_MerkleRoot = ''bb'',
       dbh_Timestamp = 0 :: nat, dbh_Bits = 5 :: uint32, dbh_Nonce = 9 :: uint32, dbh_State = ''STALE'',
       dbh_Chainwork = ''12'', dbh_CumulatedWork = '''', dbh_PreviousBlock = ''cc''\<rparr>,
      \<lparr>dbh_Height = 8 :: int32, dbh_Hash = ''zzz'', dbh_Version = 1 :: int32, dbh_MerkleRoot = ''bb'',
       dbh_Timestamp = 0 :: nat, dbh_Bits = 5 :: uint32, dbh_Nonce = 9 :: uint32, dbh_State = ''STALE'',
       dbh_Chainwork = ''12'', dbh_CumulatedWork = ''24'', dbh_PreviousBlock = ''aa''\<rparr>])) =
     Inl NilPointerDereference \<and>
   fst (ConvertToBlockHeader (\<lambda>s. if length s = 2 then (Some s, None) else (None, Some ''bad hash''))
     (Some ([] :: nat DbBlockHeader list))) = Inr None \<and>
   ConvertToMerkleRootsConfirmations
     (Some [\<lparr>dbc_MerkleRoot = ''aa'', dbc_BlockHeight = 100,
               dbc_Hash = \<lparr>ns_String = ''bb'', ns_Valid = True\<rparr>, dbc_TipHeight = 100\<rparr>,
            \<lparr>dbc_MerkleRoot = ''cc'', dbc_BlockHeight = 107,
               dbc_Hash = \<lparr>ns_String = '''', ns_Valid = False\<rparr>, dbc_TipHeight = 100\<rparr>]) 6 =
     Some [\<lparr>mrc_MerkleRoot = ''aa'', mrc_BlockHeight = 100, mrc_Hash = ''bb'',
              mrc_Confirmation = Confirmed\<rparr>,
           \<lparr>mrc_MerkleRoot = ''cc'', mrc_BlockHeight = 107, mrc_Hash = '''',
              mrc_Confirmation = Invalid\<rparr>]"
proof -
  let ?N = "\<lambda>s :: string. if length s = 2 then (Some s, None) else (None :: string option, Some ''bad hash'')"
  let ?dA = "\<lparr>dbh_Height = 7 :: int32, dbh_Hash = ''aa'', dbh_Version = 1 :: int32, dbh_MerkleRoot = ''bb'',
       dbh_Timestamp = 0 :: nat, dbh_Bits = 5 :: uint32, dbh_Nonce = 9 :: uint32, dbh_State = ''STALE'',
       dbh_Chainwork = ''12'', dbh_CumulatedWork = '''', dbh_PreviousBlock = ''cc''\<rparr>"
  let ?dB = "\<lparr>dbh_Height = 8 :: int32, dbh_Hash = ''zzz'', dbh_Version = 1 :: int32, dbh_MerkleRoot = ''bb'',
       dbh_Timestamp = 0 :: nat, dbh_Bits = 5 :: uint32, dbh_Nonce = 9 :: uint32, dbh_State = ''STALE'',
       dbh_Chainwork = ''12'', dbh_CumulatedWork = ''24'', dbh_PreviousBlock = ''aa''\<rparr>"
  let ?bA = "\<lparr>bh_Height = 7 :: int32, bh_Hash = ''aa'', bh_Version = 1 :: int32, bh_MerkleRoot = ''bb'',
       bh_Timestamp = 0 :: nat, bh_Bits = 5 :: uint32, bh_Nonce = 9 :: uint32, bh_Chainwork = Some 12,
       bh_CumulatedWork = Some 0, bh_State = ''STALE'', bh_PreviousBlock = ''cc''\<rparr>"
  have a: "fst (ToBlockHeader ?N ?dA) = Inr ?bA"
    by (simp add: ToBlockHeader_def NewInt_def SetString10_def is_digit_def digit_val_def)
  have b: "fst (ToBlockHeader ?N ?dB) = Inl NilPointerDereference"
    by (simp add: ToBlockHeader_def)
  have m: "ToMerkleRootConfirmation \<lparr>dbc_MerkleRoot = ''aa'', dbc_BlockHeight = 100,
               dbc_Hash = \<lparr>ns_String = ''bb'', ns_Valid = True\<rparr>, dbc_TipHeight = 100\<rparr> 6 =
      \<lparr>mrc_MerkleRoot = ''aa'', mrc_BlockHeight = 100, mrc_Hash = ''bb'', mrc_Confirmation = Confirmed\<rparr>"
    "ToMerkleRootConfirmation \<lparr>dbc_MerkleRoot = ''cc'', dbc_BlockHeight = 107,
               dbc_Hash = \<lparr>ns_String = '''', ns_Valid = False\<rparr>, dbc_TipHeight = 100\<rparr> 6 =
      \<lparr>mrc_MerkleRoot = ''cc'', mrc_BlockHeight = 107, mrc_Hash = '''', mrc_Confirmation = Invalid\<rparr>"
    by (simp_all add: ToMerkleRootConfirmation_def)
  show ?thesis
    using a b m
      Convert_slices [where NewHashFromStr = ?N and ds = "[?dA]" and bs = "[?bA]" and m = 6
        and rs = "[\<lparr>dbc_MerkleRoot = ''aa'', dbc_BlockHeight = 100,
               dbc_Hash = \<lparr>ns_String = ''bb'', ns_Valid = True\<rparr>, dbc_TipHeight = 100\<rparr>,
            \<lparr>dbc_MerkleRoot = ''cc'', dbc_BlockHeight = 107,
               dbc_Hash = \<lparr>ns_String = '''', ns_Valid = False\<rparr>, dbc_TipHeight = 100\<rparr>]"]
      Convert_slices [where NewHashFromStr = ?N and ds = "[?dA, ?dB]" and bs = "[]" and m = 6 and rs = "[]"]
      Convert_slices [where NewHashFromStr = ?N and ds = "[] :: nat DbBlockHeader list"
        and bs = "[]" and m = 6 and rs = "[]"]
    by simp
qed

end
